theory Spec2Isabelle
  imports Complex_Main "HOL-Library.Sublist"
begin

section \<open>Prompt builder\<close>

text \<open>
  Python strings are modelled as \<open>string\<close>. The body of \<open>create_prompt\<close> is one
  triple-quoted f-string: a literal segment, the interpolated \<open>question\<close>, and a second
  literal segment. Line breaks are newline characters, and the continuation lines keep
  the four blanks of indentation they have in the source file. The function reads
  nothing but its argument (no global, no clock, no I/O), so it is embedded as a HOL
  function on strings.
\<close>

definition newline :: string where
  "newline = [CHR 0x0A]"

definition prompt_head :: string where
  "prompt_head =
     ''Solve this mathematics question step by step.'' @ newline @
     newline @
     ''    QUESTION:'' @ newline @
     ''    ''"

definition prompt_tail :: string where
  "prompt_tail =
     newline @
     newline @
     ''    REQUIREMENTS:'' @ newline @
     ''    1. Analyze the question carefully'' @ newline @
     ''    2. Show ALL mathematical steps clearly'' @ newline @
     ''    3. Calculate values precisely'' @ newline @
     ''    4. Evaluate each step systematically'' @ newline @
     newline @
     ''    Your complete solution:''"

definition create_prompt :: "string \<Rightarrow> string" where
  "create_prompt question = prompt_head @ question @ prompt_tail"

section \<open>Values, exceptions and the outside world\<close>

text \<open>
  Keyword arguments and dictionary literals are association lists from names to Python
  values, in the order the source writes them. The decimal literals \<open>0.9\<close>, \<open>1.1\<close>
  and \<open>0.7\<close> are kept as the exact fractions they denote.
\<close>

datatype pyval =
    PStr string
  | PBool bool
  | PInt int
  | PFloat rat
  | PList "pyval list"
  | PDict "(string \<times> pyval) list"

type_synonym kwargs = "(string \<times> pyval) list"

text \<open>
  A failure is an instance of Python's \<open>Exception\<close> class, which is what the handlers
  \<open>except Exception as e\<close> of the two adapters catch. An exception value is its class
  together with its description \<open>str(e)\<close>, which is what the handlers read.
  \<open>IndexError\<close> and \<open>KeyError\<close> are the two classes the adapters' own subscripts
  can raise; every other failure of a transport is \<open>Exception\<close>.
\<close>

datatype exn =
    Exception string
  | IndexError string
  | KeyError string

fun str :: "exn \<Rightarrow> string" where
  "str (Exception m) = m"
| "str (IndexError m) = m"
| "str (KeyError m) = m"

text \<open>
  What the hosted endpoint answers: an object whose \<open>choices\<close> is a list of entries,
  each with a \<open>message\<close> that has a \<open>content\<close>. The local runtime answers with a
  dictionary that is read under the key \<open>'response'\<close>.
\<close>

record chat_completion_message =
  content :: string

record choice =
  message :: chat_completion_message

record chat_completion =
  choices :: "choice list"

type_synonym generate_response = "(string \<times> string) list"

text \<open>
  A transport is the callable an adapter invokes: \<open>client.chat.completions.create\<close> for
  the cloud adapter (the \<open>client\<close> parameter of the source) and \<open>ollama.generate\<close>
  for the local one (a module of the source's imports, taken as a parameter). Given the
  keyword arguments it either raises or returns a response.
\<close>

type_synonym 'r transport = "kwargs \<Rightarrow> exn + 'r"

text \<open>
  Readings of \<open>time.time()\<close> are seconds; floating-point subtraction is modelled by
  exact subtraction. The world holds the successive readings the clock will give, the
  number of readings taken so far, and the trace of effects performed so far (oldest
  first): clock readings, transport calls and the Streamlit calls of the page.
\<close>

type_synonym seconds = rat

text \<open>
  The second component of what an adapter returns is a Python number: the \<open>int\<close>
  literal \<open>0\<close> in the handler, the \<open>float\<close> difference of two clock readings
  otherwise.
\<close>

datatype pynum = PyInt int | PyFloat seconds

datatype container = Tab | Col1 | Col2

datatype event =
    Time_time seconds
  | Chat_completions_create kwargs
  | Chat_completions_finished
  | Ollama_generate kwargs
  | Ollama_generate_finished
  | St_spinner string
  | St_columns nat
  | St_markdown container string
  | St_response_time container pynum
  | St_warning container string

record world =
  clock :: "nat \<Rightarrow> seconds"
  reads :: nat
  trace :: "event list"

subsection \<open>Computations that may raise\<close>

type_synonym 'a io = "world \<Rightarrow> (exn + 'a) \<times> world"

definition io_return :: "'a \<Rightarrow> 'a io" where
  "io_return v w = (Inr v, w)"

definition io_raise :: "exn \<Rightarrow> 'a io" where
  "io_raise e w = (Inl e, w)"

definition io_bind :: "'a io \<Rightarrow> ('a \<Rightarrow> 'b io) \<Rightarrow> 'b io" where
  "io_bind m f w = (case m w of (Inl e, w') \<Rightarrow> (Inl e, w') | (Inr v, w') \<Rightarrow> f v w')"

definition try_except :: "'a io \<Rightarrow> (exn \<Rightarrow> 'a io) \<Rightarrow> 'a io" where
  "try_except body handler w =
     (case body w of (Inl e, w') \<Rightarrow> handler e w' | (Inr v, w') \<Rightarrow> (Inr v, w'))"

definition emit :: "event \<Rightarrow> unit io" where
  "emit ev w = (Inr (), w\<lparr>trace := trace w @ [ev]\<rparr>)"

definition time_time :: "seconds io" where
  "time_time w =
     (let t = clock w (reads w)
      in (Inr t, w\<lparr>reads := Suc (reads w), trace := trace w @ [Time_time t]\<rparr>))"

definition chat_completions_create :: "chat_completion transport \<Rightarrow> kwargs \<Rightarrow> chat_completion io" where
  "chat_completions_create client kw w =
     (client kw, w\<lparr>trace := trace w @ [Chat_completions_create kw, Chat_completions_finished]\<rparr>)"

definition ollama_generate :: "generate_response transport \<Rightarrow> kwargs \<Rightarrow> generate_response io" where
  "ollama_generate ollama kw w =
     (ollama kw, w\<lparr>trace := trace w @ [Ollama_generate kw, Ollama_generate_finished]\<rparr>)"

text \<open>\<open>xs[0]\<close> raises \<open>IndexError\<close> on the empty list. \<open>d['response']\<close> raises
  \<open>KeyError('response')\<close> when the key is missing; the description of that exception
  is the key in single quotes.\<close>

definition subscript0 :: "'a list \<Rightarrow> 'a io" where
  "subscript0 xs =
     (case xs of [] \<Rightarrow> io_raise (IndexError ''list index out of range'') | x # _ \<Rightarrow> io_return x)"

definition getitem_response :: "(string \<times> 'v) list \<Rightarrow> 'v io" where
  "getitem_response d =
     (case map_of d ''response'' of
        None \<Rightarrow> io_raise (KeyError ([CHR 0x27] @ ''response'' @ [CHR 0x27]))
      | Some v \<Rightarrow> io_return v)"

section \<open>The two adapters\<close>

definition get_gpt4_response :: "chat_completion transport \<Rightarrow> string \<Rightarrow> (string \<times> pynum) io" where
  "get_gpt4_response client prompt =
     io_bind time_time (\<lambda>start_time.
     try_except
       (io_bind (chat_completions_create client
            [(''model'', PStr ''gpt-4o''),
             (''messages'', PList [PDict [(''role'', PStr ''user''), (''content'', PStr prompt)]]),
             (''temperature'', PInt 0),
             (''max_tokens'', PInt 2000)]) (\<lambda>response.
        io_bind (subscript0 (choices response)) (\<lambda>first_choice.
        let response_text = content (message first_choice) in
        io_bind time_time (\<lambda>now.
        let time_taken = PyFloat (now - start_time) in
        io_return (response_text, time_taken)))))
       (\<lambda>e. io_return (''Error: '' @ str e, PyInt 0)))"

definition get_tinyllama_response :: "generate_response transport \<Rightarrow> string \<Rightarrow> (string \<times> pynum) io" where
  "get_tinyllama_response ollama prompt =
     io_bind time_time (\<lambda>start_time.
     try_except
       (io_bind (ollama_generate ollama
            [(''model'', PStr ''tinyllama''),
             (''prompt'', PStr prompt),
             (''options'', PDict
                [(''num_predict'', PInt 1000),
                 (''top_k'', PInt 20),
                 (''top_p'', PFloat (9 / 10)),
                 (''repeat_penalty'', PFloat (11 / 10)),
                 (''temperature'', PFloat (7 / 10)),
                 (''stop'', PList [PStr ''Question:'', PStr ''QUESTION:'', PStr (newline @ newline)])])]) (\<lambda>response.
        io_bind (getitem_response response) (\<lambda>response_text.
        io_bind time_time (\<lambda>now.
        let time_taken = PyFloat (now - start_time) in
        io_return (response_text, time_taken)))))
       (\<lambda>e. io_return (''Error: '' @ str e, PyInt 0)))"

section \<open>The submit handler of the third tab\<close>

text \<open>
  \<open>try_models\<close> is the block under \<open>if st.button("Submit Question")\<close>:
  \<open>submitted\<close> is what \<open>st.button\<close> returned and \<open>user_question\<close> what
  \<open>st.text_area\<close> returned. A Python string is true exactly when it is not empty.
  \<open>St_response_time c t\<close> stands for the markdown line
  \<open>*Response time: t seconds*\<close> with \<open>t\<close> printed to two decimals.
\<close>

definition try_models ::
  "chat_completion transport \<Rightarrow> generate_response transport \<Rightarrow> string \<Rightarrow> bool \<Rightarrow> unit io" where
  "try_models azure_client ollama user_question submitted =
     (if submitted then
        (if user_question \<noteq> [] then
           io_bind (emit (St_spinner ''Getting responses from both models...'')) (\<lambda>_.
           let prompt = create_prompt user_question in
           io_bind (emit (St_columns 2)) (\<lambda>_.
           io_bind (emit (St_markdown Col1 ''### GPT-4 Response'')) (\<lambda>_.
           io_bind (get_gpt4_response azure_client prompt) (\<lambda>(response, time_taken).
           io_bind (emit (St_markdown Col1 response)) (\<lambda>_.
           io_bind (emit (St_response_time Col1 time_taken)) (\<lambda>_.
           io_bind (emit (St_markdown Col2 ''### TinyLlama Response'')) (\<lambda>_.
           io_bind (get_tinyllama_response ollama prompt) (\<lambda>(response, time_taken).
           io_bind (emit (St_markdown Col2 response)) (\<lambda>_.
           emit (St_response_time Col2 time_taken))))))))))
         else emit (St_warning Tab ''Please enter a question first.''))
      else io_return ())"

section \<open>The precomputed tables\<close>

text \<open>
  A \<open>pd.DataFrame\<close> built from a dictionary of columns is a record of its four columns;
  its rows pair the entries of the columns position by position. The scores are decimal
  literals and are kept as the exact fractions they denote: the nearest double of each
  differs from it by less than \<open>10\<^sup>-\<^sup>1\<^sup>5\<close>, far below the tolerances compared
  against here.
\<close>

record data_frame =
  Metric :: "string list"
  GPT4 :: "rat list"
  TinyLlama :: "rat list"
  Difference :: "rat list"

definition metric_names :: "string list" where
  "metric_names =
     [''Correctness'', ''Mathematical Reasoning'', ''Solution Completeness'',
      ''Explanation Quality'', ''Coherence'', ''Time Efficiency'', ''Final Score'']"

definition abstract_algebra_data :: data_frame where
  "abstract_algebra_data = \<lparr>
     Metric = metric_names,
     GPT4 = [83/100, 40/100, 425/1000, 65/100, 675/1000, 90/100, 71/100],
     TinyLlama = [0, 10/100, 0, 10/100, 0, 30/100, 5/100],
     Difference = [83/100, 30/100, 425/1000, 55/100, 675/1000, 60/100, 66/100]\<rparr>"

definition college_math_data :: data_frame where
  "college_math_data = \<lparr>
     Metric = metric_names,
     GPT4 = [85/100, 70/100, 45/100, 50/100, 45/100, 85/100, 74/100],
     TinyLlama = [35/100, 5/100, 5/100, 10/100, 5/100, 70/100, 18/100],
     Difference = [50/100, 65/100, 40/100, 40/100, 40/100, 15/100, 56/100]\<rparr>"

definition elementary_math_data :: data_frame where
  "elementary_math_data = \<lparr>
     Metric = metric_names,
     GPT4 = [80/100, 55/100, 35/100, 40/100, 30/100, 90/100, 59/100],
     TinyLlama = [30/100, 5/100, 2/100, 5/100, 2/100, 65/100, 19/100],
     Difference = [50/100, 50/100, 33/100, 35/100, 28/100, 25/100, 40/100]\<rparr>"

definition high_school_math_data :: data_frame where
  "high_school_math_data = \<lparr>
     Metric = metric_names,
     GPT4 = [85/100, 75/100, 40/100, 45/100, 35/100, 85/100, 76/100],
     TinyLlama = [40/100, 10/100, 5/100, 8/100, 5/100, 65/100, 26/100],
     Difference = [45/100, 65/100, 35/100, 37/100, 30/100, 20/100, 50/100]\<rparr>"

definition overall_metrics :: data_frame where
  "overall_metrics = \<lparr>
     Metric = metric_names,
     GPT4 = [833/1000, 628/1000, 388/1000, 449/1000, 363/1000, 880/1000, 684/1000],
     TinyLlama = [317/1000, 47/1000, 29/1000, 55/1000, 32/1000, 658/1000, 183/1000],
     Difference = [517/1000, 581/1000, 360/1000, 393/1000, 331/1000, 222/1000, 501/1000]\<rparr>"

definition subject_tables :: "data_frame list" where
  "subject_tables =
     [abstract_algebra_data, college_math_data, elementary_math_data, high_school_math_data]"

definition rows :: "data_frame \<Rightarrow> (string \<times> rat \<times> rat \<times> rat) list" where
  "rows df = zip (Metric df) (zip (GPT4 df) (zip (TinyLlama df) (Difference df)))"

text \<open>The deviation of a row: how far its Difference is from GPT4 minus TinyLlama.\<close>

fun deviation :: "string \<times> rat \<times> rat \<times> rat \<Rightarrow> rat" where
  "deviation (m, g, t, d) = \<bar>d - (g - t)\<bar>"

definition all_rows_within :: "rat \<Rightarrow> data_frame \<Rightarrow> bool" where
  "all_rows_within tol df = list_all (\<lambda>r. deviation r \<le> tol) (rows df)"

section \<open>Names used in the statements\<close>

text \<open>
  The keyword arguments written at the two call sites, as functions of the prompt. The
  lemmas \<open>gpt4_raise\<close> to \<open>tinyllama_ok\<close> below relate them to the adapters, whose
  definitions spell the arguments out as the source does.
\<close>

definition gpt4_request :: "string \<Rightarrow> kwargs" where
  "gpt4_request prompt =
     [(''model'', PStr ''gpt-4o''),
      (''messages'', PList [PDict [(''role'', PStr ''user''), (''content'', PStr prompt)]]),
      (''temperature'', PInt 0),
      (''max_tokens'', PInt 2000)]"

definition tinyllama_request :: "string \<Rightarrow> kwargs" where
  "tinyllama_request prompt =
     [(''model'', PStr ''tinyllama''),
      (''prompt'', PStr prompt),
      (''options'', PDict
         [(''num_predict'', PInt 1000),
          (''top_k'', PInt 20),
          (''top_p'', PFloat (9 / 10)),
          (''repeat_penalty'', PFloat (11 / 10)),
          (''temperature'', PFloat (7 / 10)),
          (''stop'', PList [PStr ''Question:'', PStr ''QUESTION:'', PStr (newline @ newline)])])]"

definition cloud_call :: "string \<Rightarrow> event list" where
  "cloud_call prompt = [Chat_completions_create (gpt4_request prompt), Chat_completions_finished]"

definition local_call :: "string \<Rightarrow> event list" where
  "local_call prompt = [Ollama_generate (tinyllama_request prompt), Ollama_generate_finished]"

text \<open>
  The world an adapter leaves behind: after a call that ended in its handler (one clock
  reading, then the transport call), and after a call that went through (a second clock
  reading after the transport call). \<open>elapsed\<close> is the difference of the two readings.
\<close>

definition after_request :: "world \<Rightarrow> event list \<Rightarrow> world" where
  "after_request w call =
     w\<lparr>reads := Suc (reads w), trace := trace w @ Time_time (clock w (reads w)) # call\<rparr>"

definition after_response :: "world \<Rightarrow> event list \<Rightarrow> world" where
  "after_response w call =
     w\<lparr>reads := Suc (Suc (reads w)),
       trace := trace w @ Time_time (clock w (reads w)) # call @ [Time_time (clock w (Suc (reads w)))]\<rparr>"

definition elapsed :: "world \<Rightarrow> seconds" where
  "elapsed w = clock w (Suc (reads w)) - clock w (reads w)"

text \<open>The Streamlit calls of the handler around the two adapter calls.\<close>

definition open_columns :: "world \<Rightarrow> world" where
  "open_columns w = w\<lparr>trace := trace w @
     [St_spinner ''Getting responses from both models...'', St_columns 2,
      St_markdown Col1 ''### GPT-4 Response'']\<rparr>"

definition show_cloud :: "world \<Rightarrow> string \<Rightarrow> pynum \<Rightarrow> world" where
  "show_cloud w r t = w\<lparr>trace := trace w @
     [St_markdown Col1 r, St_response_time Col1 t, St_markdown Col2 ''### TinyLlama Response'']\<rparr>"

definition show_local :: "world \<Rightarrow> string \<Rightarrow> pynum \<Rightarrow> world" where
  "show_local w r t = w\<lparr>trace := trace w @ [St_markdown Col2 r, St_response_time Col2 t]\<rparr>"

text \<open>Observations of a trace: the requests sent to the transports, and the clock readings.\<close>

fun is_request :: "event \<Rightarrow> bool" where
  "is_request (Chat_completions_create kw) = True"
| "is_request (Ollama_generate kw) = True"
| "is_request ev = False"

definition requests :: "event list \<Rightarrow> event list" where
  "requests tr = filter is_request tr"

fun is_time_read :: "event \<Rightarrow> bool" where
  "is_time_read (Time_time t) = True"
| "is_time_read ev = False"

text \<open>
  The tuple built by either \<open>return\<close> statement of an adapter, as the list of its
  components, and the test whether a Python value is a \<open>bool\<close>.
\<close>

fun num_val :: "pynum \<Rightarrow> pyval" where
  "num_val (PyInt i) = PInt i"
| "num_val (PyFloat x) = PFloat x"

definition returned_tuple :: "string \<times> pynum \<Rightarrow> pyval list" where
  "returned_tuple r = [PStr (fst r), num_val (snd r)]"

fun is_bool :: "pyval \<Rightarrow> bool" where
  "is_bool (PBool b) = True"
| "is_bool v = False"

text \<open>Python's whitespace characters among the ASCII ones: blank, tab, line feed,
  vertical tab, form feed, carriage return.\<close>

definition is_whitespace :: "char \<Rightarrow> bool" where
  "is_whitespace c = (c \<in> {CHR 0x20, CHR 0x09, CHR 0x0A, CHR 0x0B, CHR 0x0C, CHR 0x0D})"

subsection \<open>Example transports and worlds\<close>

text \<open>
  A clock that advances by 0.8 seconds between readings; a cloud endpoint that answers
  \<open>4\<close> and one that times out; a local runtime that refuses the connection and one
  that answers.
\<close>

definition ticking_clock :: "nat \<Rightarrow> seconds" where
  "ticking_clock n = of_nat n * (4 / 5)"

definition ticking_world :: world where
  "ticking_world = \<lparr>clock = ticking_clock, reads = 0, trace = []\<rparr>"

definition cloud_answers_4 :: "chat_completion transport" where
  "cloud_answers_4 kw = Inr \<lparr>choices = [\<lparr>message = \<lparr>content = ''4''\<rparr>\<rparr>]\<rparr>"

definition cloud_times_out :: "chat_completion transport" where
  "cloud_times_out kw = Inl (Exception ''Request timed out.'')"

definition local_refuses :: "generate_response transport" where
  "local_refuses kw = Inl (Exception ''connection refused'')"

definition local_answers_4 :: "generate_response transport" where
  "local_answers_4 kw = Inr [(''model'', ''tinyllama''), (''response'', ''4'')]"

section \<open>How the adapters run\<close>

lemmas io_defs = io_return_def io_raise_def io_bind_def try_except_def emit_def time_time_def
  chat_completions_create_def ollama_generate_def subscript0_def getitem_response_def Let_def

lemma gpt4_raise:
  "client (gpt4_request prompt) = Inl e \<Longrightarrow>
   get_gpt4_response client prompt w =
     (Inr (''Error: '' @ str e, PyInt 0), after_request w (cloud_call prompt))"
  by (simp add: get_gpt4_response_def gpt4_request_def io_defs after_request_def cloud_call_def)

lemma gpt4_empty:
  "client (gpt4_request prompt) = Inr r \<Longrightarrow> choices r = [] \<Longrightarrow>
   get_gpt4_response client prompt w =
     (Inr (''Error: list index out of range'', PyInt 0), after_request w (cloud_call prompt))"
  by (simp add: get_gpt4_response_def gpt4_request_def io_defs after_request_def cloud_call_def)

lemma gpt4_ok:
  "client (gpt4_request prompt) = Inr r \<Longrightarrow> choices r = c # cs \<Longrightarrow>
   get_gpt4_response client prompt w =
     (Inr (content (message c), PyFloat (elapsed w)), after_response w (cloud_call prompt))"
  by (simp add: get_gpt4_response_def gpt4_request_def io_defs after_response_def
      cloud_call_def elapsed_def)

lemma tinyllama_raise:
  "ollama (tinyllama_request prompt) = Inl e \<Longrightarrow>
   get_tinyllama_response ollama prompt w =
     (Inr (''Error: '' @ str e, PyInt 0), after_request w (local_call prompt))"
  by (simp add: get_tinyllama_response_def tinyllama_request_def io_defs after_request_def
      local_call_def)

lemma tinyllama_missing:
  "ollama (tinyllama_request prompt) = Inr r \<Longrightarrow> map_of r ''response'' = None \<Longrightarrow>
   get_tinyllama_response ollama prompt w =
     (Inr (''Error: '' @ [CHR 0x27] @ ''response'' @ [CHR 0x27], PyInt 0),
      after_request w (local_call prompt))"
  by (simp add: get_tinyllama_response_def tinyllama_request_def io_defs after_request_def
      local_call_def)

lemma tinyllama_ok:
  "ollama (tinyllama_request prompt) = Inr r \<Longrightarrow> map_of r ''response'' = Some text \<Longrightarrow>
   get_tinyllama_response ollama prompt w =
     (Inr (text, PyFloat (elapsed w)), after_response w (local_call prompt))"
  by (simp add: get_tinyllama_response_def tinyllama_request_def io_defs after_response_def
      local_call_def elapsed_def)

text \<open>Either adapter always returns a pair, in one of the two worlds above.\<close>

lemma gpt4_returns:
  "\<exists>r t w'. get_gpt4_response client prompt w = (Inr (r, t), w') \<and>
     (w' = after_request w (cloud_call prompt) \<or> w' = after_response w (cloud_call prompt))"
proof (cases "client (gpt4_request prompt)")
  case (Inl e)
  then show ?thesis using gpt4_raise by blast
next
  case (Inr r)
  then show ?thesis
    by (cases "choices r") (use gpt4_empty gpt4_ok in blast)+
qed

lemma tinyllama_returns:
  "\<exists>r t w'. get_tinyllama_response ollama prompt w = (Inr (r, t), w') \<and>
     (w' = after_request w (local_call prompt) \<or> w' = after_response w (local_call prompt))"
proof (cases "ollama (tinyllama_request prompt)")
  case (Inl e)
  then show ?thesis using tinyllama_raise by blast
next
  case (Inr r)
  then show ?thesis
    by (cases "map_of r ''response''") (use tinyllama_missing tinyllama_ok in blast)+
qed

lemma adapter_trace:
  assumes "w' = after_request w call \<or> w' = after_response w call"
  shows "\<exists>t0 ts. trace w' = trace w @ Time_time t0 # call @ ts \<and> list_all is_time_read ts"
  using assms
proof
  assume "w' = after_request w call"
  then have "trace w' = trace w @ Time_time (clock w (reads w)) # call @ []"
    by (simp add: after_request_def)
  moreover have "list_all is_time_read []" by simp
  ultimately show ?thesis by blast
next
  assume "w' = after_response w call"
  then have "trace w' =
      trace w @ Time_time (clock w (reads w)) # call @ [Time_time (clock w (Suc (reads w)))]"
    by (simp add: after_response_def)
  moreover have "list_all is_time_read [Time_time (clock w (Suc (reads w)))]" by simp
  ultimately show ?thesis by blast
qed

lemma requests_append: "requests (xs @ ys) = requests xs @ requests ys"
  by (simp add: requests_def)

lemma requests_Nil: "requests [] = []"
  by (simp add: requests_def)

lemma requests_Cons:
  "requests (ev # evs) = (if is_request ev then ev # requests evs else requests evs)"
  by (simp add: requests_def)

lemma requests_time_reads: "list_all is_time_read ts \<Longrightarrow> requests ts = []"
proof (induction ts)
  case Nil
  show ?case by (simp add: requests_Nil)
next
  case (Cons ev evs)
  then show ?case by (cases ev) (simp_all add: requests_Cons)
qed

lemma adapter_requests:
  assumes "w' = after_request w call \<or> w' = after_response w call"
  shows "requests (trace w') = requests (trace w) @ requests call"
proof -
  obtain t0 ts where tr: "trace w' = trace w @ Time_time t0 # call @ ts"
    and ts: "list_all is_time_read ts"
    using adapter_trace [OF assms] by blast
  have "requests ts = []" using ts by (rule requests_time_reads)
  then show ?thesis
    by (simp add: tr requests_append requests_Cons)
qed

section \<open>How the handler runs\<close>

lemma try_models_threads:
  assumes "user_question \<noteq> []"
    and "get_gpt4_response azure_client (create_prompt user_question) (open_columns w) =
           (Inr (r1, t1), w2)"
    and "get_tinyllama_response ollama (create_prompt user_question) (show_cloud w2 r1 t1) =
           (Inr (r2, t2), w4)"
  shows "try_models azure_client ollama user_question True w = (Inr (), show_local w4 r2 t2)"
  using assms
  by (simp add: try_models_def io_bind_def emit_def Let_def open_columns_def show_cloud_def
      show_local_def)

lemma try_models_run:
  assumes "user_question \<noteq> []"
  shows "\<exists>r1 t1 w2 r2 t2 w4.
     get_gpt4_response azure_client (create_prompt user_question) (open_columns w) =
       (Inr (r1, t1), w2) \<and>
     (w2 = after_request (open_columns w) (cloud_call (create_prompt user_question)) \<or>
      w2 = after_response (open_columns w) (cloud_call (create_prompt user_question))) \<and>
     get_tinyllama_response ollama (create_prompt user_question) (show_cloud w2 r1 t1) =
       (Inr (r2, t2), w4) \<and>
     (w4 = after_request (show_cloud w2 r1 t1) (local_call (create_prompt user_question)) \<or>
      w4 = after_response (show_cloud w2 r1 t1) (local_call (create_prompt user_question))) \<and>
     try_models azure_client ollama user_question True w = (Inr (), show_local w4 r2 t2)"
proof -
  obtain r1 t1 w2 where
    g: "get_gpt4_response azure_client (create_prompt user_question) (open_columns w) =
          (Inr (r1, t1), w2)"
    and w2: "w2 = after_request (open_columns w) (cloud_call (create_prompt user_question)) \<or>
             w2 = after_response (open_columns w) (cloud_call (create_prompt user_question))"
    using gpt4_returns by blast
  obtain r2 t2 w4 where
    l: "get_tinyllama_response ollama (create_prompt user_question) (show_cloud w2 r1 t1) =
          (Inr (r2, t2), w4)"
    and w4: "w4 = after_request (show_cloud w2 r1 t1) (local_call (create_prompt user_question)) \<or>
             w4 = after_response (show_cloud w2 r1 t1) (local_call (create_prompt user_question))"
    using tinyllama_returns by blast
  note run = try_models_threads [OF assms g l]
  show ?thesis
    by (rule exI [of _ r1], rule exI [of _ t1], rule exI [of _ w2],
        rule exI [of _ r2], rule exI [of _ t2], rule exI [of _ w4])
      (intro conjI g w2 l w4 run)
qed

section \<open>Claims about the prompt builder\<close>

lemma sublist_prompt_tail:
  assumes "sublist xs prompt_tail"
  shows "sublist xs (create_prompt Q)"
proof -
  from assms obtain ps ss where "prompt_tail = ps @ xs @ ss"
    by (auto simp: sublist_def)
  then have "create_prompt Q = (prompt_head @ Q @ ps) @ xs @ ss"
    by (simp add: create_prompt_def)
  then show ?thesis
    unfolding sublist_def by blast
qed

text \<open>
  C3. For every non-empty question \<open>Q\<close>, the prompt is a function of \<open>Q\<close> alone (equal
  questions give equal prompts, character for character) and it contains \<open>Q\<close> verbatim
  as a contiguous substring.
\<close>

theorem create_prompt_deterministic:
  assumes "Q \<noteq> []"
  shows "(\<forall>Q'. Q' = Q \<longrightarrow> create_prompt Q' = create_prompt Q) \<and> sublist Q (create_prompt Q)"
  by (simp add: create_prompt_def)

theorem create_prompt_deterministic_witness:
  "''What is 2+2?'' \<noteq> [] \<and> sublist ''What is 2+2?'' (create_prompt ''What is 2+2?'')"
  using create_prompt_deterministic [of "''What is 2+2?''"] by simp

text \<open>
  C8. \<open>create_prompt\<close> is defined on every string: whatever the question, the result
  begins with the fixed head of the template, ends with its fixed tail, and contains
  the heading and each of the four numbered requirements. On the empty question it
  returns head and tail with nothing between them.
\<close>

theorem create_prompt_total:
  "prefix prompt_head (create_prompt Q) \<and> suffix prompt_tail (create_prompt Q) \<and>
   length (create_prompt Q) = length prompt_head + length Q + length prompt_tail \<and>
   sublist ''REQUIREMENTS:'' (create_prompt Q) \<and>
   sublist ''1. Analyze the question carefully'' (create_prompt Q) \<and>
   sublist ''2. Show ALL mathematical steps clearly'' (create_prompt Q) \<and>
   sublist ''3. Calculate values precisely'' (create_prompt Q) \<and>
   sublist ''4. Evaluate each step systematically'' (create_prompt Q) \<and>
   create_prompt [] = prompt_head @ prompt_tail \<and>
   prefix ''Solve this mathematics question step by step.'' (create_prompt []) \<and>
   suffix ''Your complete solution:'' (create_prompt [])"
proof -
  have "sublist ''REQUIREMENTS:'' prompt_tail" by code_simp
  moreover have "sublist ''1. Analyze the question carefully'' prompt_tail" by code_simp
  moreover have "sublist ''2. Show ALL mathematical steps clearly'' prompt_tail" by code_simp
  moreover have "sublist ''3. Calculate values precisely'' prompt_tail" by code_simp
  moreover have "sublist ''4. Evaluate each step systematically'' prompt_tail" by code_simp
  moreover have "prefix ''Solve this mathematics question step by step.'' (create_prompt [])"
    by code_simp
  moreover have "suffix ''Your complete solution:'' (create_prompt [])"
    by code_simp
  moreover have "suffix prompt_tail (create_prompt Q)"
    unfolding create_prompt_def suffix_def by (metis append.assoc)
  ultimately show ?thesis
    by (simp add: sublist_prompt_tail) (simp add: create_prompt_def)
qed

section \<open>Claims about the adapters\<close>

text \<open>
  C1. If the transport call made by the cloud adapter raises \<open>e\<close>, the adapter does not
  raise: it returns the pair of the text \<open>Error: \<close> followed by \<open>str e\<close> and the
  elapsed time 0 (the integer). The same holds for the local adapter.
\<close>

theorem adapters_contain_failure:
  "(client (gpt4_request prompt) = Inl e \<longrightarrow>
      fst (get_gpt4_response client prompt w) = Inr (''Error: '' @ str e, PyInt 0)) \<and>
   (ollama (tinyllama_request prompt) = Inl e' \<longrightarrow>
      fst (get_tinyllama_response ollama prompt w) = Inr (''Error: '' @ str e', PyInt 0))"
  by (simp add: gpt4_raise tinyllama_raise)

theorem adapters_contain_failure_witness:
  "cloud_times_out (gpt4_request ''p'') = Inl (Exception ''Request timed out.'') \<and>
   fst (get_gpt4_response cloud_times_out ''p'' ticking_world) =
     Inr (''Error: Request timed out.'', PyInt 0) \<and>
   local_refuses (tinyllama_request ''p'') = Inl (Exception ''connection refused'') \<and>
   fst (get_tinyllama_response local_refuses ''p'' ticking_world) =
     Inr (''Error: connection refused'', PyInt 0)"
  using adapters_contain_failure [of cloud_times_out "''p''" "Exception ''Request timed out.''"
      ticking_world local_refuses "Exception ''connection refused''"]
  by (simp add: cloud_times_out_def local_refuses_def)

text \<open>
  C7. Whatever the prompt and whatever the transport answers, the cloud adapter sends
  exactly one request, with the model \<open>gpt-4o\<close>, one message of role \<open>user\<close> whose
  content is the prompt, temperature 0 and at most 2000 tokens; the local adapter sends
  exactly one request, with the model \<open>tinyllama\<close>, the prompt, and the options
  \<open>num_predict\<close> 1000, \<open>top_k\<close> 20, \<open>top_p\<close> 0.9, \<open>repeat_penalty\<close> 1.1,
  \<open>temperature\<close> 0.7 and the three stop sequences.
\<close>

theorem adapters_send_fixed_requests:
  "requests (trace (snd (get_gpt4_response client prompt w))) =
     requests (trace w) @
     [Chat_completions_create
        [(''model'', PStr ''gpt-4o''),
         (''messages'', PList [PDict [(''role'', PStr ''user''), (''content'', PStr prompt)]]),
         (''temperature'', PInt 0),
         (''max_tokens'', PInt 2000)]] \<and>
   requests (trace (snd (get_tinyllama_response ollama prompt w))) =
     requests (trace w) @
     [Ollama_generate
        [(''model'', PStr ''tinyllama''),
         (''prompt'', PStr prompt),
         (''options'', PDict
            [(''num_predict'', PInt 1000),
             (''top_k'', PInt 20),
             (''top_p'', PFloat (9 / 10)),
             (''repeat_penalty'', PFloat (11 / 10)),
             (''temperature'', PFloat (7 / 10)),
             (''stop'', PList [PStr ''Question:'', PStr ''QUESTION:'',
                PStr [CHR 0x0A, CHR 0x0A]])])]]"
proof -
  obtain r t w' where "get_gpt4_response client prompt w = (Inr (r, t), w')"
    and "w' = after_request w (cloud_call prompt) \<or> w' = after_response w (cloud_call prompt)"
    using gpt4_returns by blast
  then have cloud: "requests (trace (snd (get_gpt4_response client prompt w))) =
      requests (trace w) @ requests (cloud_call prompt)"
    using adapter_requests by simp
  obtain r' t' w'' where "get_tinyllama_response ollama prompt w = (Inr (r', t'), w'')"
    and "w'' = after_request w (local_call prompt) \<or> w'' = after_response w (local_call prompt)"
    using tinyllama_returns by blast
  then have local: "requests (trace (snd (get_tinyllama_response ollama prompt w))) =
      requests (trace w) @ requests (local_call prompt)"
    using adapter_requests by simp
  show ?thesis
    unfolding cloud local
    by (simp add: cloud_call_def local_call_def requests_Cons requests_Nil gpt4_request_def
        tinyllama_request_def newline_def)
qed

section \<open>Claims about the submit handler\<close>

text \<open>
  C9. When the question submitted is empty, the handler shows the warning and does
  nothing else: the world it leaves is the one it found with the warning appended, so
  no clock reading was taken and no request was sent, whatever the two transports are.
\<close>

theorem try_models_empty_question:
  "try_models azure_client ollama [] True w =
     (Inr (), w\<lparr>trace := trace w @ [St_warning Tab ''Please enter a question first.'']\<rparr>) \<and>
   reads (snd (try_models azure_client ollama [] True w)) = reads w \<and>
   requests (trace (snd (try_models azure_client ollama [] True w))) = requests (trace w)"
  by (simp add: try_models_def emit_def requests_append requests_Cons requests_Nil)

text \<open>
  C5. For a non-empty question the handler builds one prompt, runs the cloud adapter on
  it, shows its result, runs the local adapter on the same prompt in the world left so
  far, and shows its result. Both adapters return a pair, and the handler returns
  without raising.
\<close>

theorem try_models_both_responses:
  assumes "user_question \<noteq> []"
  shows "\<exists>r1 t1 w2 r2 t2 w4.
     get_gpt4_response azure_client (create_prompt user_question) (open_columns w) =
       (Inr (r1, t1), w2) \<and>
     get_tinyllama_response ollama (create_prompt user_question) (show_cloud w2 r1 t1) =
       (Inr (r2, t2), w4) \<and>
     try_models azure_client ollama user_question True w = (Inr (), show_local w4 r2 t2)"
  using try_models_run [OF assms, of azure_client w ollama] by blast

theorem try_models_both_responses_witness:
  "''What is 2+2?'' \<noteq> [] \<and>
   fst (try_models cloud_answers_4 local_refuses ''What is 2+2?'' True ticking_world) = Inr ()"
  using try_models_both_responses [of "''What is 2+2?''" cloud_answers_4 ticking_world local_refuses]
  by auto





text \<open>
  C10. The guard of the handler tests the question for emptiness only. The warning is
  the handler's whole effect exactly when the question is the empty string; a question
  made of whitespace characters only passes the guard, and the handler then sends both
  requests, each carrying the prompt built from that question, and returns normally.
\<close>

theorem guard_rejects_only_empty_string:
  "(trace (snd (try_models azure_client ollama q True w)) =
      trace w @ [St_warning Tab ''Please enter a question first.'']) = (q = []) \<and>
   (q \<noteq> [] \<and> list_all is_whitespace q \<longrightarrow>
      fst (try_models azure_client ollama q True w) = Inr () \<and>
      requests (trace (snd (try_models azure_client ollama q True w))) =
        requests (trace w) @
        [Chat_completions_create (gpt4_request (create_prompt q)),
         Ollama_generate (tinyllama_request (create_prompt q))])"
proof (cases "q = []")
  case True
  then show ?thesis by (simp add: try_models_def emit_def)
next
  case False
  obtain r1 t1 w2 r2 t2 w4 where
    g: "get_gpt4_response azure_client (create_prompt q) (open_columns w) = (Inr (r1, t1), w2)"
    and w2: "w2 = after_request (open_columns w) (cloud_call (create_prompt q)) \<or>
         w2 = after_response (open_columns w) (cloud_call (create_prompt q))"
    and l: "get_tinyllama_response ollama (create_prompt q) (show_cloud w2 r1 t1) =
         (Inr (r2, t2), w4)"
    and w4: "w4 = after_request (show_cloud w2 r1 t1) (local_call (create_prompt q)) \<or>
             w4 = after_response (show_cloud w2 r1 t1) (local_call (create_prompt q))"
    and run: "try_models azure_client ollama q True w = (Inr (), show_local w4 r2 t2)"
    using try_models_run [OF False] by blast
  have "requests (trace w2) =
      requests (trace w) @ [Chat_completions_create (gpt4_request (create_prompt q))]"
    using adapter_requests [OF w2]
    by (simp add: open_columns_def cloud_call_def requests_append requests_Cons requests_Nil)
  moreover have "requests (trace w4) = requests (trace w2) @
      [Ollama_generate (tinyllama_request (create_prompt q))]"
    using adapter_requests [OF w4]
    by (simp add: show_cloud_def local_call_def requests_append requests_Cons requests_Nil)
  ultimately have req: "requests (trace (snd (try_models azure_client ollama q True w))) =
      requests (trace w) @
      [Chat_completions_create (gpt4_request (create_prompt q)),
       Ollama_generate (tinyllama_request (create_prompt q))]"
    by (simp add: run show_local_def requests_append requests_Cons requests_Nil)
  have "trace (snd (try_models azure_client ollama q True w)) \<noteq>
      trace w @ [St_warning Tab ''Please enter a question first.'']"
  proof
    assume "trace (snd (try_models azure_client ollama q True w)) =
      trace w @ [St_warning Tab ''Please enter a question first.'']"
    then have "requests (trace (snd (try_models azure_client ollama q True w))) =
      requests (trace w)"
      by (simp add: requests_append requests_Cons requests_Nil)
    then have "requests (trace w) @
      [Chat_completions_create (gpt4_request (create_prompt q)),
       Ollama_generate (tinyllama_request (create_prompt q))] = requests (trace w)"
      unfolding req .
    then show False by simp
  qed
  moreover have "fst (try_models azure_client ollama q True w) = Inr ()"
    by (simp add: run)
  ultimately show ?thesis
    using False req by simp
qed

theorem guard_rejects_only_empty_string_witness:
  "'' '' \<noteq> [] \<and> list_all is_whitespace '' '' \<and>
   fst (try_models cloud_answers_4 local_answers_4 '' '' True ticking_world) = Inr () \<and>
   requests (trace (snd (try_models cloud_answers_4 local_answers_4 '' '' True ticking_world))) =
     [Chat_completions_create (gpt4_request (create_prompt '' '')),
      Ollama_generate (tinyllama_request (create_prompt '' ''))]"
  using guard_rejects_only_empty_string [of cloud_answers_4 local_answers_4 "'' ''" ticking_world]
  by (simp add: is_whitespace_def ticking_world_def requests_Nil)


text \<open>
  C6, as stated, fails: what an adapter returns is a tuple of two components, a text
  and a number, and neither is a boolean. On a call that times out the cloud adapter
  returns the text of the failure and the integer 0, and nothing else.
\<close>

theorem adapter_success_flag_counterexample:
  "fst (get_gpt4_response cloud_times_out ''p'' ticking_world) =
     Inr (''Error: Request timed out.'', PyInt 0) \<and>
   returned_tuple (''Error: Request timed out.'', PyInt 0) =
     [PStr ''Error: Request timed out.'', PInt 0] \<and>
   \<not> list_ex is_bool (returned_tuple (''Error: Request timed out.'', PyInt 0))"
proof -
  have "get_gpt4_response cloud_times_out ''p'' ticking_world =
      (Inr (''Error: '' @ str (Exception ''Request timed out.''), PyInt 0),
       after_request ticking_world (cloud_call ''p''))"
    by (rule gpt4_raise) (simp add: cloud_times_out_def)
  then show ?thesis
    by (simp add: returned_tuple_def)
qed

text \<open>
  C6, amended. Every adapter invocation returns exactly a pair of the response text and
  the elapsed time, with no boolean success flag. When the call failed (the transport
  raised, or the response had no first choice, or no \<open>response\<close> key) the pair is
  the text \<open>Error: \<close> followed by the failure's description, and the integer 0; when
  it went through, the pair is the content of the response and a float.
\<close>

theorem adapter_returns_pair_without_flag:
  "(\<exists>text n. fst (get_gpt4_response client prompt w) = Inr (text, n) \<and>
      returned_tuple (text, n) = [PStr text, num_val n] \<and>
      \<not> list_ex is_bool (returned_tuple (text, n)) \<and>
      ((\<exists>e. (client (gpt4_request prompt) = Inl e \<or>
              (\<exists>r. client (gpt4_request prompt) = Inr r \<and> choices r = [] \<and>
                 e = IndexError ''list index out of range'')) \<and>
            text = ''Error: '' @ str e \<and> n = PyInt 0) \<or>
       (\<exists>r c cs x. client (gpt4_request prompt) = Inr r \<and> choices r = c # cs \<and>
            text = content (message c) \<and> n = PyFloat x))) \<and>
   (\<exists>text n. fst (get_tinyllama_response ollama prompt w) = Inr (text, n) \<and>
      returned_tuple (text, n) = [PStr text, num_val n] \<and>
      \<not> list_ex is_bool (returned_tuple (text, n)) \<and>
      ((\<exists>e. (ollama (tinyllama_request prompt) = Inl e \<or>
              (\<exists>r. ollama (tinyllama_request prompt) = Inr r \<and>
                 map_of r ''response'' = None \<and>
                 e = KeyError ([CHR 0x27] @ ''response'' @ [CHR 0x27]))) \<and>
            text = ''Error: '' @ str e \<and> n = PyInt 0) \<or>
       (\<exists>r x. ollama (tinyllama_request prompt) = Inr r \<and>
            map_of r ''response'' = Some text \<and> n = PyFloat x)))"
proof
  have flag: "\<not> list_ex is_bool (returned_tuple (t, n))" for t n
    by (cases n) (simp_all add: returned_tuple_def)
  have tup: "returned_tuple (t, n) = [PStr t, num_val n]" for t n
    by (simp add: returned_tuple_def)
  show "\<exists>text n. fst (get_gpt4_response client prompt w) = Inr (text, n) \<and>
      returned_tuple (text, n) = [PStr text, num_val n] \<and>
      \<not> list_ex is_bool (returned_tuple (text, n)) \<and>
      ((\<exists>e. (client (gpt4_request prompt) = Inl e \<or>
              (\<exists>r. client (gpt4_request prompt) = Inr r \<and> choices r = [] \<and>
                 e = IndexError ''list index out of range'')) \<and>
            text = ''Error: '' @ str e \<and> n = PyInt 0) \<or>
       (\<exists>r c cs x. client (gpt4_request prompt) = Inr r \<and> choices r = c # cs \<and>
            text = content (message c) \<and> n = PyFloat x))"
  proof (cases "client (gpt4_request prompt)")
    case (Inl e)
    have "fst (get_gpt4_response client prompt w) = Inr (''Error: '' @ str e, PyInt 0)"
      using gpt4_raise [of client prompt e w] Inl by simp
    with Inl flag tup show ?thesis by blast
  next
    case (Inr r)
    show ?thesis
    proof (cases "choices r")
      case Nil
      have "fst (get_gpt4_response client prompt w) =
          Inr (''Error: '' @ str (IndexError ''list index out of range''), PyInt 0)"
        using gpt4_empty [of client prompt r w] Inr Nil by simp
      with Inr Nil flag tup show ?thesis by blast
    next
      case (Cons c cs)
      have "fst (get_gpt4_response client prompt w) =
          Inr (content (message c), PyFloat (elapsed w))"
        using gpt4_ok [of client prompt r c cs w] Inr Cons by simp
      with Inr Cons flag tup show ?thesis by blast
    qed
  qed
  show "\<exists>text n. fst (get_tinyllama_response ollama prompt w) = Inr (text, n) \<and>
      returned_tuple (text, n) = [PStr text, num_val n] \<and>
      \<not> list_ex is_bool (returned_tuple (text, n)) \<and>
      ((\<exists>e. (ollama (tinyllama_request prompt) = Inl e \<or>
              (\<exists>r. ollama (tinyllama_request prompt) = Inr r \<and>
                 map_of r ''response'' = None \<and>
                 e = KeyError ([CHR 0x27] @ ''response'' @ [CHR 0x27]))) \<and>
            text = ''Error: '' @ str e \<and> n = PyInt 0) \<or>
       (\<exists>r x. ollama (tinyllama_request prompt) = Inr r \<and>
            map_of r ''response'' = Some text \<and> n = PyFloat x))"
  proof (cases "ollama (tinyllama_request prompt)")
    case (Inl e)
    have "fst (get_tinyllama_response ollama prompt w) = Inr (''Error: '' @ str e, PyInt 0)"
      using tinyllama_raise [of ollama prompt e w] Inl by simp
    with Inl flag tup show ?thesis by blast
  next
    case (Inr r)
    show ?thesis
    proof (cases "map_of r ''response''")
      case None
      have "fst (get_tinyllama_response ollama prompt w) =
          Inr (''Error: '' @ str (KeyError ([CHR 0x27] @ ''response'' @ [CHR 0x27])), PyInt 0)"
        using tinyllama_missing [of ollama prompt r w] Inr None by simp
      with Inr None flag tup show ?thesis by blast
    next
      case (Some answer)
      have "fst (get_tinyllama_response ollama prompt w) = Inr (answer, PyFloat (elapsed w))"
        using tinyllama_ok [of ollama prompt r answer w] Inr Some by simp
      with Inr Some flag tup show ?thesis by blast
    qed
  qed
qed

section \<open>Claims about the precomputed tables\<close>

text \<open>
  C2, as stated, fails on the overall table: its first row has GPT4 0.833, TinyLlama
  0.317 and Difference 0.517, and 0.833 - 0.317 is 0.516, so the deviation is 0.001,
  a thousand times the tolerance.
\<close>

theorem overall_difference_counterexample:
  "rows overall_metrics ! 0 = (''Correctness'', 833 / 1000, 317 / 1000, 517 / 1000) \<and>
   deviation (rows overall_metrics ! 0) = 1 / 1000 \<and>
   \<not> all_rows_within (1 / 10 ^ 6) overall_metrics"
  by (simp add: rows_def overall_metrics_def metric_names_def all_rows_within_def)

text \<open>
  C2, amended. Each of the five tables has seven rows. In every row of the four subject
  tables the Difference equals GPT4 minus TinyLlama within \<open>10\<^sup>-\<^sup>6\<close>. In the overall
  table, whose entries are rounded to three decimals, this holds for four rows; the
  rows Correctness, Solution Completeness and Explanation Quality deviate, and no row
  deviates by more than 0.001 (up to the same tolerance).
\<close>

theorem static_tables_difference:
  "list_all (\<lambda>df. length (rows df) = 7) (overall_metrics # subject_tables) \<and>
   list_all (all_rows_within (1 / 10 ^ 6)) subject_tables \<and>
   all_rows_within (1 / 1000 + 1 / 10 ^ 6) overall_metrics \<and>
   map fst (filter (\<lambda>r. 1 / 10 ^ 6 < deviation r) (rows overall_metrics)) =
     [''Correctness'', ''Solution Completeness'', ''Explanation Quality'']"
proof -
  have "length (rows overall_metrics) = 7"
    by (simp add: rows_def overall_metrics_def metric_names_def)
  moreover have "list_all (\<lambda>df. length (rows df) = 7) subject_tables"
    by (simp add: subject_tables_def rows_def metric_names_def abstract_algebra_data_def
        college_math_data_def elementary_math_data_def high_school_math_data_def)
  moreover have "all_rows_within (1 / 10 ^ 6) abstract_algebra_data"
    by (simp add: all_rows_within_def rows_def abstract_algebra_data_def metric_names_def)
  moreover have "all_rows_within (1 / 10 ^ 6) college_math_data"
    by (simp add: all_rows_within_def rows_def college_math_data_def metric_names_def)
  moreover have "all_rows_within (1 / 10 ^ 6) elementary_math_data"
    by (simp add: all_rows_within_def rows_def elementary_math_data_def metric_names_def)
  moreover have "all_rows_within (1 / 10 ^ 6) high_school_math_data"
    by (simp add: all_rows_within_def rows_def high_school_math_data_def metric_names_def)
  moreover have "all_rows_within (1 / 1000 + 1 / 10 ^ 6) overall_metrics"
    by (simp add: all_rows_within_def rows_def overall_metrics_def metric_names_def)
  moreover have "map fst (filter (\<lambda>r. 1 / 10 ^ 6 < deviation r) (rows overall_metrics)) =
     [''Correctness'', ''Solution Completeness'', ''Explanation Quality'']"
    by (simp add: rows_def overall_metrics_def metric_names_def)
  ultimately show ?thesis
    by (simp add: subject_tables_def)
qed

end
